theory Spec2Isabelle
  imports Complex_Main "HOL-Library.Word"
begin

section \<open>JavaScript values\<close>

text \<open>
  A thrown \<open>Error\<close> is represented by its \<open>message\<close>: the handlers of
  \<open>server.js\<close> and of both HTTP servers read no other property of a caught error.
\<close>

type_synonym js_error = string

type_synonym buffer = "8 word list"

text \<open>
  The errors that the engine, \<open>Buffer.from\<close>, \<open>fs\<close> and TensorFlow raise by
  themselves. Their message texts are fixed by the platform, not by the repository; the
  environment supplies them (\<open>errText\<close> below). \<open>ENOENT\<close> and \<open>EPERM\<close> name the system
  call and the path.
\<close>

datatype fault =
    ReadOfNull string
  | ReadOfUndefined string
  | NotAFunction string
  | BufferFromUndefined
  | ENOENT string string
  | EPERM string string
  | EmptyImage

text \<open>
  A JavaScript number: \<open>NaN\<close>, the two infinities, or a finite value. The only
  arithmetic the claims depend on is the comparison \<open>p > q\<close>, which is exact and is
  false whenever an operand is \<open>NaN\<close>.
\<close>

datatype jsnum = NaN | NegInf | Num real | PosInf

fun js_gt :: "jsnum \<Rightarrow> jsnum \<Rightarrow> bool" where
  "js_gt NaN _ = False"
| "js_gt _ NaN = False"
| "js_gt (Num a) (Num b) = (b < a)"
| "js_gt PosInf PosInf = False"
| "js_gt PosInf _ = True"
| "js_gt _ PosInf = False"
| "js_gt NegInf _ = False"
| "js_gt _ NegInf = True"

text \<open>The values \<open>JSON.parse\<close> returns. An object keeps its members in source order.\<close>

datatype json =
    JNull
  | JBool bool
  | JNumber real
  | JString string
  | JArray "json list"
  | JObject "(string \<times> json) list"

section \<open>Predictions\<close>

text \<open>
  \<open>{ className, probability }\<close>. \<open>className\<close> is \<open>classNames[index]\<close>, which is
  \<open>undefined\<close> (\<open>None\<close>) for an index past the end of the array.
\<close>

record prediction =
  className :: "string option"
  probability :: jsnum

definition classNames :: "string list" where
  "classNames = [''Oidium Heveae'', ''Healthy'', ''Anthracnose'', ''Leaf Spot'']"

definition classNames_at :: "nat \<Rightarrow> string option" where
  "classNames_at index = (if index < length classNames then Some (classNames ! index) else None)"

text \<open>
  \<open>probabilities.map((prob, index) => ({ className: classNames[index], probability: prob }))\<close>
\<close>

definition predictions_of :: "jsnum list \<Rightarrow> prediction list" where
  "predictions_of probabilities =
     map (\<lambda>(prob, index). \<lparr>className = classNames_at index, probability = prob\<rparr>)
       (zip probabilities [0..<length probabilities])"

text \<open>
  \<open>predictions.reduce((max, p) => (p.probability > max.probability ? p : max),
  { className: "", probability: 0 })\<close>
\<close>

definition seed :: prediction where
  "seed = \<lparr>className = Some [], probability = Num 0\<rparr>"

definition keep_max :: "prediction \<Rightarrow> prediction \<Rightarrow> prediction" where
  "keep_max mx p = (if js_gt (probability p) (probability mx) then p else mx)"

definition topPrediction_of :: "prediction list \<Rightarrow> prediction" where
  "topPrediction_of predictions = foldl keep_max seed predictions"

section \<open>The world the handlers run in\<close>

text \<open>
  What a handler can do to the process is recorded as a trace: every call into \<open>fs\<close>
  and every TensorFlow operation that is started, in order.
\<close>

datatype event =
    FsRead string
  | FsExists string
  | FsUnlink string
  | TfDecodeImage
  | TfResize
  | TfDiv
  | TfExpandDims
  | TfPredict

text \<open>One WebSocket connection: whether it is open, and what the server has sent on it.\<close>

datatype outmsg =
    PredictionMsg "prediction list" prediction string string
  | ErrorMsg string "prediction list"

record conn =
  is_open :: bool
  outbox :: "outmsg list"

text \<open>
  \<^item> \<open>next_id\<close>, \<open>live\<close>: the TensorFlow engine. Every tensor gets a fresh id; \<open>live\<close>
    holds the ids of the tensors that have not been disposed.
  \<^item> \<open>files\<close>: the upload directory, a map from a path to the file's bytes.
  \<^item> \<open>locked\<close>: the paths whose removal the operating system refuses.
  \<^item> \<open>conns\<close>: the WebSocket connections, by number.
\<close>

record world =
  next_id :: nat
  live :: "nat set"
  files :: "string \<Rightarrow> buffer option"
  locked :: "string set"
  trace :: "event list"
  conns :: "nat \<Rightarrow> conn"

text \<open>
  What the repository does not contain and the handlers call:
  \<^item> \<open>model\<close>: the module variable \<open>model\<close>, \<open>None\<close> while it is \<open>undefined\<close>
    (not loaded, or the load failed). A loaded model maps its input tensor to the flat
    values of its output tensor, or throws.
  \<^item> \<open>decodeImage\<close>: \<open>tf.node.decodeImage(buffer, 3)\<close>, or the error it throws. For a
    JPEG, PNG or BMP file the result has rank 3, \<open>[height, width, 3]\<close>: a still image,
    rows of pixels of channel bytes. For a GIF file it has rank 4,
    \<open>[frames, height, width, 3]\<close>, whatever the number of frames: the call leaves
    \<open>expandAnimations\<close> at its default.
  \<^item> \<open>scale_floor n i\<close>: \<open>\<lfloor>i * (n / 224)\<rfloor>\<close> as the resize kernel computes it, in
    floating point; it can fall one short of the exact quotient.
  \<^item> \<open>fl\<close>: the rounding of a quotient into the dtype of the result of \<open>div\<close>.
  \<^item> \<open>JSON_parse\<close>: \<open>JSON.parse\<close>; \<open>base64\<close>: \<open>Buffer.from(s, "base64")\<close>.
  \<^item> \<open>toFixed2\<close>: \<open>(p * 100).toFixed(2)\<close>; \<open>now\<close>: \<open>new Date().toISOString()\<close>.
  \<^item> \<open>errText\<close>: the message of each platform error.
\<close>

type_synonym image = "8 word list list list"

datatype 'a pixels = Still "'a list list list" | Animated "'a list list list list"

text \<open>
  What \<open>expandDims\<close> hands to the model: rank 4 from a still image, rank 5 from an
  animation.
\<close>

datatype input = Rank4 "real list list list list" | Rank5 "real list list list list list"

record env =
  model :: "(input \<Rightarrow> js_error + jsnum list) option"
  decodeImage :: "buffer \<Rightarrow> js_error + 8 word pixels"
  scale_floor :: "nat \<Rightarrow> nat \<Rightarrow> nat"
  fl :: "real \<Rightarrow> real"
  JSON_parse :: "string \<Rightarrow> js_error + json"
  base64 :: "string \<Rightarrow> buffer"
  toFixed2 :: "jsnum \<Rightarrow> string"
  now :: string
  errText :: "fault \<Rightarrow> string"

subsection \<open>Statements that may throw\<close>

text \<open>
  A statement maps the world to a result and the new world; the result is \<open>Inl\<close> of the
  error when the statement throws. \<open>try_catch\<close> is \<open>try { ... } catch (err) { ... }\<close>.
\<close>

type_synonym 'a io = "world \<Rightarrow> (js_error + 'a) \<times> world"

definition ret :: "'a \<Rightarrow> 'a io" where
  "ret x = (\<lambda>w. (Inr x, w))"

definition throw :: "js_error \<Rightarrow> 'a io" where
  "throw e = (\<lambda>w. (Inl e, w))"

definition lift :: "js_error + 'a \<Rightarrow> 'a io" where
  "lift r = (\<lambda>w. (r, w))"

definition bind :: "'a io \<Rightarrow> ('a \<Rightarrow> 'b io) \<Rightarrow> 'b io" where
  "bind m f = (\<lambda>w. case m w of (Inl e, w') \<Rightarrow> (Inl e, w') | (Inr x, w') \<Rightarrow> f x w')"

definition try_catch :: "'a io \<Rightarrow> (js_error \<Rightarrow> 'a io) \<Rightarrow> 'a io" where
  "try_catch m h = (\<lambda>w. case m w of (Inl e, w') \<Rightarrow> h e w' | (Inr x, w') \<Rightarrow> (Inr x, w'))"

definition log :: "event \<Rightarrow> unit io" where
  "log ev = (\<lambda>w. (Inr (), w\<lparr>trace := trace w @ [ev]\<rparr>))"

subsection \<open>The file system\<close>

definition readFileSync :: "env \<Rightarrow> string \<Rightarrow> buffer io" where
  "readFileSync env p =
     bind (log (FsRead p)) (\<lambda>_ w.
       case files w p of
         None \<Rightarrow> (Inl (errText env (ENOENT ''open'' p)), w)
       | Some b \<Rightarrow> (Inr b, w))"

definition existsSync :: "string \<Rightarrow> bool io" where
  "existsSync p = bind (log (FsExists p)) (\<lambda>_ w. (Inr (files w p \<noteq> None), w))"

text \<open>
  \<open>fs.promises.unlink\<close>: rejects when the file is not there, or when the operating
  system refuses; removes the file otherwise.
\<close>

definition unlink :: "env \<Rightarrow> string \<Rightarrow> unit io" where
  "unlink env p =
     bind (log (FsUnlink p)) (\<lambda>_ w.
       if files w p = None then (Inl (errText env (ENOENT ''unlink'' p)), w)
       else if p \<in> locked w then (Inl (errText env (EPERM ''unlink'' p)), w)
       else (Inr (), w\<lparr>files := (files w)(p := None)\<rparr>))"

subsection \<open>The WebSocket\<close>

text \<open>\<open>ws.send\<close>: the message is queued on the connection; a closed one drops it.\<close>

definition pushed :: "outmsg \<Rightarrow> conn \<Rightarrow> conn" where
  "pushed msg c = c\<lparr>outbox := outbox c @ [msg]\<rparr>"

definition ws_send :: "nat \<Rightarrow> outmsg \<Rightarrow> unit io" where
  "ws_send ws msg = (\<lambda>w.
     (Inr (),
      if is_open (conns w ws) then w\<lparr>conns := (conns w)(ws := pushed msg (conns w ws))\<rparr>
      else w))"

subsection \<open>TensorFlow\<close>

datatype 'a tensor = Tensor (tid: nat) (dat: 'a)

definition tf_alloc :: "'a \<Rightarrow> 'a tensor io" where
  "tf_alloc d = (\<lambda>w.
     (Inr (Tensor (next_id w) d),
      w\<lparr>next_id := Suc (next_id w), live := insert (next_id w) (live w)\<rparr>))"

text \<open>
  \<open>tf.tidy(fn)\<close>: runs \<open>fn\<close>, and when \<open>fn\<close> returns or throws disposes every tensor
  created since the scope was opened, save those in the value returned. The callbacks of
  this repository return an object of numbers and strings or a typed array, never a
  tensor.
\<close>

definition tidy :: "'a io \<Rightarrow> 'a io" where
  "tidy fn = (\<lambda>w. case fn w of (r, w') \<Rightarrow> (r, w'\<lparr>live := live w' - {next_id w..<next_id w'}\<rparr>))"

definition tf_decodeImage :: "env \<Rightarrow> buffer \<Rightarrow> 8 word pixels tensor io" where
  "tf_decodeImage env buffer =
     bind (log TfDecodeImage) (\<lambda>_. bind (lift (decodeImage env buffer)) tf_alloc)"

text \<open>The images a decoded tensor holds, and an operation applied to each of them.\<close>

definition frames :: "'a pixels \<Rightarrow> 'a list list list list" where
  "frames px = (case px of Still img \<Rightarrow> [img] | Animated imgs \<Rightarrow> imgs)"

definition map_frames ::
  "('a list list list \<Rightarrow> 'b list list list) \<Rightarrow> 'a pixels \<Rightarrow> 'b pixels" where
  "map_frames f px = (case px of Still img \<Rightarrow> Still (f img) | Animated imgs \<Rightarrow> Animated (map f imgs))"

text \<open>
  \<open>resizeNearestNeighbor([224, 224])\<close> without corner alignment, on every image of the
  tensor: output row \<open>y\<close> is input row \<open>min (h - 1) \<lfloor>y * (h / 224)\<rfloor>\<close>, and columns alike.
  The kernel refuses an image without rows or columns.
\<close>

definition nn_index :: "env \<Rightarrow> nat \<Rightarrow> nat \<Rightarrow> nat" where
  "nn_index env n i = min (n - 1) (scale_floor env n i)"

definition resize_row :: "env \<Rightarrow> 'a list \<Rightarrow> 'a list" where
  "resize_row env row = map (\<lambda>x. row ! nn_index env (length row) x) [0..<224]"

definition resizeNearestNeighbor :: "env \<Rightarrow> 'a list list \<Rightarrow> 'a list list" where
  "resizeNearestNeighbor env img =
     map (\<lambda>y. resize_row env (img ! nn_index env (length img) y)) [0..<224]"

definition no_pixels :: "'a pixels \<Rightarrow> bool" where
  "no_pixels px = list_ex (\<lambda>img. img = [] \<or> [] \<in> set img) (frames px)"

definition tf_resizeNearestNeighbor ::
  "env \<Rightarrow> 8 word pixels tensor \<Rightarrow> 8 word pixels tensor io" where
  "tf_resizeNearestNeighbor env t =
     bind (log TfResize) (\<lambda>_.
       if no_pixels (dat t) then throw (errText env EmptyImage)
       else tf_alloc (map_frames (resizeNearestNeighbor env) (dat t)))"

definition div255 :: "env \<Rightarrow> image \<Rightarrow> real list list list" where
  "div255 env img = map (map (map (\<lambda>v. fl env (real (unat v) / 255)))) img"

definition tf_div255 :: "env \<Rightarrow> 8 word pixels tensor \<Rightarrow> real pixels tensor io" where
  "tf_div255 env t = bind (log TfDiv) (\<lambda>_. tf_alloc (map_frames (div255 env) (dat t)))"

text \<open>\<open>expandDims()\<close>: a new first axis of size one.\<close>

definition expandDims :: "real pixels \<Rightarrow> input" where
  "expandDims px = (case px of Still img \<Rightarrow> Rank4 [img] | Animated imgs \<Rightarrow> Rank5 [imgs])"

definition tf_expandDims :: "real pixels tensor \<Rightarrow> input tensor io" where
  "tf_expandDims t = bind (log TfExpandDims) (\<lambda>_. tf_alloc (expandDims (dat t)))"

text \<open>
  \<open>tf.node.decodeImage(buffer, 3).resizeNearestNeighbor([224, 224]).div(255.0).expandDims()\<close>,
  the same chain in \<open>predictLeafDisease\<close> and in both \<open>POST /predict\<close> handlers.
  \<open>model_input\<close> is the value of the tensor it builds from the decoded pixels.
\<close>

definition preprocess :: "env \<Rightarrow> buffer \<Rightarrow> input tensor io" where
  "preprocess env buffer =
     bind (tf_decodeImage env buffer) (\<lambda>t0.
     bind (tf_resizeNearestNeighbor env t0) (\<lambda>t1.
     bind (tf_div255 env t1) (\<lambda>t2.
     tf_expandDims t2)))"

definition model_input :: "env \<Rightarrow> 8 word pixels \<Rightarrow> input" where
  "model_input env px =
     expandDims (map_frames (div255 env) (map_frames (resizeNearestNeighbor env) px))"

definition tf_predict ::
  "(input \<Rightarrow> js_error + jsnum list) \<Rightarrow> input tensor \<Rightarrow> jsnum list tensor io" where
  "tf_predict m t = bind (log TfPredict) (\<lambda>_. bind (lift (m (dat t))) tf_alloc)"

text \<open>
  \<open>prediction.dataSync()\<close>, and row 0 of \<open>await prediction.array()\<close>: for the output of
  a batch of one image both are the values of the output tensor.
\<close>

definition dataSync :: "'a tensor \<Rightarrow> 'a io" where
  "dataSync t = ret (dat t)"

text \<open>
  The engine hands out ids in increasing order: in a \<open>fresh\<close> world no id that is
  still to be handed out is live. A statement \<open>keeps_live\<close> when it leaves the set of
  live tensors of every such world as it found it.
\<close>

definition fresh :: "world \<Rightarrow> bool" where
  "fresh w = (\<forall>t\<in>live w. t < next_id w)"

definition keeps_live :: "'a io \<Rightarrow> bool" where
  "keeps_live m = (\<forall>w. fresh w \<longrightarrow> fresh (snd (m w)) \<and> live (snd (m w)) = live w)"

text \<open>
  The shape and the range of a tensor, as predicates on the nested lists.
  \<open>fixed_shape\<close> is the shape (1, 224, 224, 3).
\<close>

definition is_grid :: "nat \<Rightarrow> nat \<Rightarrow> nat \<Rightarrow> 'a list list list \<Rightarrow> bool" where
  "is_grid h w c img =
     (length img = h \<and>
      list_all (\<lambda>row. length row = w \<and> list_all (\<lambda>px. length px = c) row) img)"

definition has_shape :: "nat \<Rightarrow> nat \<Rightarrow> nat \<Rightarrow> nat \<Rightarrow> 'a list list list list \<Rightarrow> bool" where
  "has_shape b h w c t = (length t = b \<and> list_all (is_grid h w c) t)"

definition fixed_shape :: "input \<Rightarrow> bool" where
  "fixed_shape t = (case t of Rank4 b \<Rightarrow> has_shape 1 224 224 3 b | Rank5 _ \<Rightarrow> False)"

definition unit_range :: "real list list list \<Rightarrow> bool" where
  "unit_range img = list_all (list_all (list_all (\<lambda>v. 0 \<le> v \<and> v \<le> 1))) img"

definition in_unit_range :: "input \<Rightarrow> bool" where
  "in_unit_range t =
     (case t of
        Rank4 b \<Rightarrow> list_all unit_range b
      | Rank5 b \<Rightarrow> list_all (list_all unit_range) b)"

section \<open>\<open>server.js\<close>: the streaming server\<close>

record prediction_result =
  predictions :: "prediction list"
  topPrediction :: prediction
  confidence :: string
  timestamp :: string

definition predictLeafDisease :: "env \<Rightarrow> buffer \<Rightarrow> prediction_result io" where
  "predictLeafDisease env buffer =
     (case model env of
        None \<Rightarrow> throw ''Model not loaded yet''
      | Some m \<Rightarrow>
          tidy
            (try_catch
               (bind (preprocess env buffer) (\<lambda>tensor.
                bind (tf_predict m tensor) (\<lambda>prediction.
                bind (dataSync prediction) (\<lambda>probabilities.
                  ret \<lparr>predictions = predictions_of probabilities,
                       topPrediction = topPrediction_of (predictions_of probabilities),
                       confidence =
                         toFixed2 env (probability (topPrediction_of (predictions_of probabilities))),
                       timestamp = now env\<rparr>))))
               (\<lambda>err. throw (''Prediction failed: '' @ err))))"

text \<open>
  Reading a property of a parsed message: \<open>null\<close> throws; an object yields its member,
  the last one when the name is repeated; any other value has no property named
  \<open>type\<close> or \<open>frameData\<close>.
\<close>

definition get_prop :: "env \<Rightarrow> json \<Rightarrow> string \<Rightarrow> js_error + json option" where
  "get_prop env v k =
     (case v of
        JNull \<Rightarrow> Inl (errText env (ReadOfNull k))
      | JObject members \<Rightarrow> Inr (map_of (rev members) k)
      | _ \<Rightarrow> Inr None)"

text \<open>\<open>s.split(",")\<close>\<close>

fun split_comma :: "string \<Rightarrow> string list" where
  "split_comma [] = [[]]"
| "split_comma (c # cs) =
     (if c = CHR '','' then [] # split_comma cs
      else (case split_comma cs of [] \<Rightarrow> [[c]] | p # ps \<Rightarrow> (c # p) # ps))"

text \<open>
  \<open>message.frameData.split(",")[1]\<close>: throws when \<open>frameData\<close> is missing or \<open>null\<close>,
  or is not a string (it has no callable \<open>split\<close>); \<open>undefined\<close> when the string has no
  comma.
\<close>

definition frameData_split1 :: "env \<Rightarrow> json option \<Rightarrow> js_error + string option" where
  "frameData_split1 env frameData =
     (case frameData of
        None \<Rightarrow> Inl (errText env (ReadOfUndefined ''split''))
      | Some JNull \<Rightarrow> Inl (errText env (ReadOfNull ''split''))
      | Some (JString s) \<Rightarrow>
          (case split_comma s of _ # piece # _ \<Rightarrow> Inr (Some piece) | _ \<Rightarrow> Inr None)
      | Some _ \<Rightarrow> Inl (errText env (NotAFunction ''split'')))"

text \<open>\<open>Buffer.from(base64Data, "base64")\<close>: throws for \<open>undefined\<close>.\<close>

definition Buffer_from :: "env \<Rightarrow> string option \<Rightarrow> js_error + buffer" where
  "Buffer_from env base64Data =
     (case base64Data of
        None \<Rightarrow> Inl (errText env BufferFromUndefined)
      | Some s \<Rightarrow> Inr (base64 env s))"

text \<open>\<open>ws.on("message", async (data) => { try { ... } catch (err) { ... } })\<close>\<close>

definition on_message :: "env \<Rightarrow> nat \<Rightarrow> string \<Rightarrow> unit io" where
  "on_message env ws data =
     try_catch
       (bind (lift (JSON_parse env data)) (\<lambda>message.
        bind (lift (get_prop env message ''type'')) (\<lambda>ty.
          if ty = Some (JString ''frame'') then
            bind (lift (get_prop env message ''frameData'')) (\<lambda>frameData.
            bind (lift (frameData_split1 env frameData)) (\<lambda>base64Data.
            bind (lift (Buffer_from env base64Data)) (\<lambda>buffer.
            bind (predictLeafDisease env buffer) (\<lambda>prediction.
              ws_send ws
                (PredictionMsg (predictions prediction) (topPrediction prediction)
                   (confidence prediction) (timestamp prediction))))))
          else ret ())))
       (\<lambda>err. ws_send ws (ErrorMsg err []))"

section \<open>The HTTP servers\<close>

record result =
  tfjsVersion :: string
  tmVersion :: string
  modelName :: string
  labels :: "string list"
  res_predictions :: "prediction list"
  res_topPrediction :: prediction
  imageSize :: nat
  timeStamp :: string

datatype body =
    ErrorBody string
  | FailBody string string
  | ResultBody result

record response =
  status :: nat
  body :: body

text \<open>\<open>req.file\<close>: the path of the stored upload, \<open>None\<close> when no file was attached.\<close>

record request =
  req_file :: "string option"

text \<open>The decimal digits of a number, for the template string of the length check.\<close>

fun show_nat :: "nat \<Rightarrow> string" where
  "show_nat n =
     (if n < 10 then [''0123456789'' ! n]
      else show_nat (n div 10) @ [''0123456789'' ! (n mod 10)])"

declare show_nat.simps [simp del]

definition build_result :: "env \<Rightarrow> jsnum list \<Rightarrow> result" where
  "build_result env probabilities =
     \<lparr>tfjsVersion = ''1.7.4'',
      tmVersion = ''2.4.10'',
      modelName = ''tm-my-image-model'',
      labels = classNames,
      res_predictions = predictions_of probabilities,
      res_topPrediction = topPrediction_of (predictions_of probabilities),
      imageSize = 224,
      timeStamp = now env\<rparr>"

text \<open>
  The remainder of the \<open>try\<close> block once the probabilities are known, the same text in
  both handlers: the length check, the response, the removal of the upload.
\<close>

definition respond :: "env \<Rightarrow> string \<Rightarrow> jsnum list \<Rightarrow> response io" where
  "respond env imagePath probabilities =
     (if length probabilities \<noteq> length classNames then
        throw (''Expected '' @ show_nat (length classNames) @ '' output classes but got ''
               @ show_nat (length probabilities))
      else
        bind (try_catch (unlink env imagePath) (\<lambda>err. ret ())) (\<lambda>_.
        ret \<lparr>status = 200, body = ResultBody (build_result env probabilities)\<rparr>))"

text \<open>The \<open>catch\<close> block of both handlers.\<close>

definition on_failure :: "env \<Rightarrow> string \<Rightarrow> js_error \<Rightarrow> response io" where
  "on_failure env imagePath err =
     bind (existsSync imagePath) (\<lambda>ex.
     bind (if ex then try_catch (unlink env imagePath) (\<lambda>err2. ret ()) else ret ()) (\<lambda>_.
     ret \<lparr>status = 500, body = FailBody ''Prediction failed'' err\<rparr>))"

text \<open>\<open>app.post("/predict", ...)\<close> of the first HTTP server: no \<open>tf.tidy\<close>.\<close>

definition post_predict_1 :: "env \<Rightarrow> request \<Rightarrow> response io" where
  "post_predict_1 env req =
     (case model env of
        None \<Rightarrow>
          ret \<lparr>status = 503, body = ErrorBody ''Model not loaded yet. Please try again later.''\<rparr>
      | Some m \<Rightarrow>
          (case req_file req of
             None \<Rightarrow> ret \<lparr>status = 400, body = ErrorBody ''No image uploaded''\<rparr>
           | Some imagePath \<Rightarrow>
               try_catch
                 (bind (readFileSync env imagePath) (\<lambda>buffer.
                  bind (preprocess env buffer) (\<lambda>tensor.
                  bind (try_catch (tf_predict m tensor)
                          (\<lambda>err. throw (''Model prediction failed: '' @ err))) (\<lambda>prediction.
                  bind (dataSync prediction) (\<lambda>probabilities.
                  respond env imagePath probabilities)))))
                 (on_failure env imagePath)))"

text \<open>\<open>app.post("/predict", ...)\<close> of the second HTTP server: inference inside \<open>tf.tidy\<close>.\<close>

definition post_predict_2 :: "env \<Rightarrow> request \<Rightarrow> response io" where
  "post_predict_2 env req =
     (case model env of
        None \<Rightarrow>
          ret \<lparr>status = 503, body = ErrorBody ''Model not loaded yet. Please try again later.''\<rparr>
      | Some m \<Rightarrow>
          (case req_file req of
             None \<Rightarrow> ret \<lparr>status = 400, body = ErrorBody ''No image uploaded''\<rparr>
           | Some imagePath \<Rightarrow>
               try_catch
                 (bind (readFileSync env imagePath) (\<lambda>buffer.
                  bind (tidy
                          (bind (preprocess env buffer) (\<lambda>tensor.
                           bind (try_catch (tf_predict m tensor)
                                   (\<lambda>err. throw (''Model prediction failed: '' @ err)))
                             (\<lambda>prediction.
                           dataSync prediction)))) (\<lambda>probabilities.
                  respond env imagePath probabilities)))
                 (on_failure env imagePath)))"

section \<open>Example environments\<close>

text \<open>
  The concrete inputs at which the theorems below are instantiated: a PNG file of one
  pixel (255, 0, 128) and a GIF file of one frame of one pixel (255, 0, 0), byte by
  byte; the PNG file in base64; the texts of the messages; and an environment that
  answers as Node.js 18 and TensorFlow.js do at these inputs. Its model answers a
  batch of rank 4 with four scores and refuses any other rank.
\<close>

definition png_bytes :: buffer where
  "png_bytes =
     [137, 80, 78, 71, 13, 10, 26, 10, 0, 0, 0, 13, 73, 72, 68, 82, 0, 0, 0, 1, 0, 0, 0, 1,
      8, 2, 0, 0, 0, 144, 119, 83, 222, 0, 0, 0, 12, 73, 68, 65, 84, 120, 218, 99, 248,
      207, 208, 0, 0, 3, 129, 1, 128, 156, 80, 69, 45, 0, 0, 0, 0, 73, 69, 78, 68, 174, 66,
      96, 130]"

definition png_base64 :: string where
  "png_base64 =
     ''iVBORw0KGgoAAAANSUhEUgAAAAEAAAABCAIAAACQd1PeAA'' @
     ''AADElEQVR42mP4z9AAAAOBAYCcUEUtAAAAAElFTkSuQmCC''"

definition gif_bytes :: buffer where
  "gif_bytes =
     [71, 73, 70, 56, 57, 97, 1, 0, 1, 0, 128, 0, 0, 255, 0, 0, 0, 0, 0, 44, 0, 0, 0, 0, 1,
      0, 1, 0, 0, 2, 2, 68, 1, 0, 59]"

definition img1 :: image where
  "img1 = [[[255, 0, 128]]]"

definition gif_frame :: image where
  "gif_frame = [[[255, 0, 0]]]"

definition dq :: string where
  "dq = [CHR 0x22]"

definition sq :: string where
  "sq = [CHR 0x27]"

text \<open>
  \<open>{"type":"frame","frameData":"data:image/png;base64,..."}\<close>, the same with an empty
  payload, \<open>{"type":"ping"}\<close>, \<open>null\<close>, and a text that is not JSON.
\<close>

definition frame_text :: string where
  "frame_text =
     ''{'' @ dq @ ''type'' @ dq @ '':'' @ dq @ ''frame'' @ dq @ '','' @ dq @ ''frameData'' @ dq
     @ '':'' @ dq @ ''data:image/png;base64,'' @ png_base64 @ dq @ ''}''"

definition empty_frame_text :: string where
  "empty_frame_text =
     ''{'' @ dq @ ''type'' @ dq @ '':'' @ dq @ ''frame'' @ dq @ '','' @ dq @ ''frameData'' @ dq
     @ '':'' @ dq @ ''data:image/png;base64,'' @ dq @ ''}''"

definition ping_text :: string where
  "ping_text = ''{'' @ dq @ ''type'' @ dq @ '':'' @ dq @ ''ping'' @ dq @ ''}''"

definition null_text :: string where
  "null_text = ''null''"

definition broken_text :: string where
  "broken_text = ''{oops''"

definition frame_message :: json where
  "frame_message =
     JObject [(''type'', JString ''frame''),
              (''frameData'', JString (''data:image/png;base64,'' @ png_base64))]"

definition empty_frame_message :: json where
  "empty_frame_message =
     JObject [(''type'', JString ''frame''), (''frameData'', JString ''data:image/png;base64,'')]"

definition ping_message :: json where
  "ping_message = JObject [(''type'', JString ''ping'')]"

text \<open>The message texts of Node.js 18 for the platform errors.\<close>

fun node_text :: "fault \<Rightarrow> string" where
  "node_text (ReadOfNull k) = ''Cannot read properties of null (reading '' @ sq @ k @ sq @ '')''"
| "node_text (ReadOfUndefined k) =
     ''Cannot read properties of undefined (reading '' @ sq @ k @ sq @ '')''"
| "node_text (NotAFunction k) = ''message.frameData.'' @ k @ '' is not a function''"
| "node_text BufferFromUndefined =
     ''The first argument must be of type string or an instance of Buffer, ArrayBuffer, ''
     @ ''or Array or an Array-like Object. Received undefined''"
| "node_text (ENOENT call p) =
     ''ENOENT: no such file or directory, '' @ call @ '' '' @ sq @ p @ sq"
| "node_text (EPERM call p) = ''EPERM: operation not permitted, '' @ call @ '' '' @ sq @ p @ sq"
| "node_text EmptyImage = ''input image must be of non-zero size''"

text \<open>
  \<open>(p * 100).toFixed(2)\<close> for a probability that is not negative: the nearest multiple
  of a hundredth, the larger one on a tie.
\<close>

definition fixed2 :: "jsnum \<Rightarrow> string" where
  "fixed2 p =
     (case p of
        Num r \<Rightarrow>
          show_nat (nat \<lfloor>r * 10000 + 1 / 2\<rfloor> div 100) @ ''.''
          @ show_nat (nat \<lfloor>r * 10000 + 1 / 2\<rfloor> mod 100 div 10)
          @ show_nat (nat \<lfloor>r * 10000 + 1 / 2\<rfloor> mod 10)
      | NaN \<Rightarrow> ''NaN''
      | PosInf \<Rightarrow> ''Infinity''
      | NegInf \<Rightarrow> ''-Infinity'')"

definition env_ok :: env where
  "env_ok =
     \<lparr>model = Some (\<lambda>t.
        case t of
          Rank4 b \<Rightarrow> Inr [Num (1/8), Num (5/8), Num (1/8), Num (1/8)]
        | Rank5 b \<Rightarrow> Inl ''expected input to have 4 dimension(s)''),
      decodeImage = (\<lambda>b.
        if b = png_bytes then Inr (Still img1)
        else if b = gif_bytes then Inr (Animated [gif_frame])
        else Inl ''Expected image (BMP, JPEG, PNG, or GIF), but got unsupported image type''),
      scale_floor = (\<lambda>n i. if n = 1 then 0 else i * n div 224),
      fl = (\<lambda>x. x),
      JSON_parse = (\<lambda>d.
        if d = frame_text then Inr frame_message
        else if d = empty_frame_text then Inr empty_frame_message
        else if d = ping_text then Inr ping_message
        else if d = null_text then Inr JNull
        else Inl ''Unexpected token o in JSON at position 1''),
      base64 = (\<lambda>s. if s = png_base64 then png_bytes else []),
      toFixed2 = fixed2,
      now = ''2024-01-01T00:00:00.000Z'',
      errText = node_text\<rparr>"

definition env_off :: env where
  "env_off = env_ok\<lparr>model := None\<rparr>"

definition env_bad_model :: env where
  "env_bad_model = env_ok\<lparr>model := Some (\<lambda>t. Inl ''shape mismatch'')\<rparr>"

definition env_three :: env where
  "env_three =
     env_ok\<lparr>model := Some (\<lambda>t.
       case t of
         Rank4 b \<Rightarrow> Inr [Num (1/4), Num (1/2), Num (1/4)]
       | Rank5 b \<Rightarrow> Inl ''expected input to have 4 dimension(s)'')\<rparr>"

definition env_five :: env where
  "env_five =
     env_ok\<lparr>model := Some (\<lambda>t.
       case t of
         Rank4 b \<Rightarrow> Inr [Num (1/8), Num (1/2), Num (1/8), Num (1/8), Num (1/8)]
       | Rank5 b \<Rightarrow> Inl ''expected input to have 4 dimension(s)'')\<rparr>"

definition tie_probs :: "jsnum list" where
  "tie_probs = [Num (1/8), Num (3/8), Num (3/8), Num (1/8)]"

definition w0 :: world where
  "w0 =
     \<lparr>next_id = 0, live = {},
      files = [''uploads/a1'' \<mapsto> png_bytes],
      locked = {},
      trace = [],
      conns = (\<lambda>c. \<lparr>is_open = True, outbox = []\<rparr>)\<rparr>"

section \<open>Theorems\<close>

lemmas io_defs = ret_def throw_def lift_def bind_def try_catch_def log_def

lemmas tf_defs = preprocess_def tf_decodeImage_def tf_resizeNearestNeighbor_def tf_div255_def
  tf_expandDims_def tf_predict_def dataSync_def tf_alloc_def

lemmas fs_defs = readFileSync_def existsSync_def unlink_def

lemmas text_defs = frame_text_def empty_frame_text_def ping_text_def null_text_def
  broken_text_def dq_def png_base64_def

lemmas fixture_defs = env_ok_def env_off_def env_bad_model_def env_three_def env_five_def w0_def
  img1_def gif_frame_def tie_probs_def

lemma foldl_keep_max_le:
  assumes "map probability ps = map Num rs" "probability acc = Num a" "\<forall>r\<in>set rs. r \<le> a"
  shows "foldl keep_max acc ps = acc"
  using assms
proof (induction ps arbitrary: rs)
  case Nil
  then show ?case by simp
next
  case (Cons p ps)
  then obtain r rs' where rs: "rs = r # rs'" by (cases rs) auto
  with Cons.prems have "probability p = Num r" "r \<le> a" by auto
  with Cons.prems(2) have "keep_max acc p = acc" by (simp add: keep_max_def)
  with Cons rs show ?case by auto
qed

lemma foldl_keep_max_first:
  assumes "map probability ps = map Num rs" "probability acc = Num a" "\<exists>r\<in>set rs. a < r"
  shows "\<exists>i<length ps. foldl keep_max acc ps = ps ! i \<and> rs ! i = Max (set rs)
           \<and> (\<forall>j<i. rs ! j < rs ! i)"
  using assms
proof (induction ps arbitrary: rs acc a)
  case Nil
  then show ?case by simp
next
  case (Cons p ps)
  then obtain r rs' where rs: "rs = r # rs'" by (cases rs) auto
  with Cons.prems have pr: "probability p = Num r" and rest: "map probability ps = map Num rs'"
    by auto
  show ?case
  proof (cases "a < r")
    case True
    with pr Cons.prems(2) have step: "keep_max acc p = p" by (simp add: keep_max_def)
    show ?thesis
    proof (cases "\<exists>x\<in>set rs'. r < x")
      case False
      then have le: "\<forall>x\<in>set rs'. x \<le> r" by auto
      with rest pr have "foldl keep_max p ps = p" by (rule foldl_keep_max_le)
      moreover have "Max (set rs) = r" using le rs by (auto intro: Max_eqI)
      ultimately show ?thesis using step rs by (intro exI [of _ 0]) simp
    next
      case ex: True
      with Cons.IH [OF rest pr] obtain i where i: "i < length ps"
        "foldl keep_max p ps = ps ! i" "rs' ! i = Max (set rs')" "\<forall>j<i. rs' ! j < rs' ! i"
        by blast
      from ex have ne: "rs' \<noteq> []" by auto
      from ex have "r < Max (set rs')" using ne by (simp add: Max_gr_iff)
      then have mx: "Max (set rs) = Max (set rs')" and lt: "r < rs' ! i"
        using rs ne i(3) by (simp_all add: max_def)
      have "\<forall>j<Suc i. rs ! j < rs ! Suc i"
        using i(4) lt rs by (auto simp: less_Suc_eq_0_disj)
      with i mx step rs show ?thesis by (intro exI [of _ "Suc i"]) simp
    qed
  next
    case False
    with pr Cons.prems(2) have step: "keep_max acc p = acc" by (simp add: keep_max_def)
    from False Cons.prems(3) rs have ex: "\<exists>x\<in>set rs'. a < x" by auto
    with Cons.IH [OF rest Cons.prems(2)] obtain i where i: "i < length ps"
      "foldl keep_max acc ps = ps ! i" "rs' ! i = Max (set rs')" "\<forall>j<i. rs' ! j < rs' ! i"
      by blast
    from ex have ne: "rs' \<noteq> []" by auto
    from ex have "a < Max (set rs')" using ne by (simp add: Max_gr_iff)
    with False have "r < Max (set rs')" by simp
    then have mx: "Max (set rs) = Max (set rs')" and lt: "r < rs' ! i"
      using rs ne i(3) by (simp_all add: max_def)
    have "\<forall>j<Suc i. rs ! j < rs ! Suc i"
      using i(4) lt rs by (auto simp: less_Suc_eq_0_disj)
    with i mx step rs show ?thesis by (intro exI [of _ "Suc i"]) simp
  qed
qed


subsection \<open>The top prediction\<close>

text \<open>
  Claim C4. For a prediction set whose probabilities are numbers that are not negative
  (\<open>rs\<close> lists them), the probability of the top prediction is the maximum of the set;
  when some probability is positive the top prediction is the entry at the first index
  that holds the maximum, every earlier entry being strictly smaller; and when every
  probability is zero, or the set is empty, the top prediction is the seed, with class
  name \<open>""\<close> and probability 0.
\<close>

theorem topPrediction_first_maximum:
  assumes "map probability ps = map Num rs" and "\<forall>r\<in>set rs. 0 \<le> r"
  shows "(ps \<noteq> [] \<longrightarrow> probability (topPrediction_of ps) = Num (Max (set rs)))
       \<and> ((\<exists>r\<in>set rs. 0 < r) \<longrightarrow>
            (\<exists>i<length ps. topPrediction_of ps = ps ! i \<and> rs ! i = Max (set rs)
               \<and> (\<forall>j<i. rs ! j < rs ! i)))
       \<and> ((\<forall>r\<in>set rs. r = 0) \<longrightarrow> topPrediction_of ps = seed)"
proof -
  have seed0: "probability seed = Num 0" by (simp add: seed_def)
  have len: "length ps = length rs" using assms(1) by (metis length_map)
  have zero: "topPrediction_of ps = seed" if "\<forall>r\<in>set rs. r = 0"
    unfolding topPrediction_of_def
    using assms(1) seed0 that by (intro foldl_keep_max_le [where a = 0 and rs = rs]) auto
  have pos: "\<exists>i<length ps. topPrediction_of ps = ps ! i \<and> rs ! i = Max (set rs)
               \<and> (\<forall>j<i. rs ! j < rs ! i)" if "\<exists>r\<in>set rs. 0 < r"
    unfolding topPrediction_of_def
    using assms(1) seed0 that by (rule foldl_keep_max_first)
  have mx: "probability (topPrediction_of ps) = Num (Max (set rs))" if ne: "ps \<noteq> []"
  proof (cases "\<exists>r\<in>set rs. 0 < r")
    case True
    from pos [OF True] obtain i where i: "i < length ps" "topPrediction_of ps = ps ! i"
      "rs ! i = Max (set rs)" by blast
    have "probability (ps ! i) = map probability ps ! i" using i(1) by simp
    also have "\<dots> = Num (rs ! i)" using assms(1) i(1) len by simp
    finally show ?thesis using i by simp
  next
    case False
    with assms(2) have all0: "\<forall>r\<in>set rs. r = 0" by force
    from ne len have "rs \<noteq> []" by auto
    with all0 have "set rs = {0}" by (cases rs) auto
    then have "Max (set rs) = 0" by simp
    with zero [OF all0] seed0 show ?thesis by simp
  qed
  from zero pos mx show ?thesis by blast
qed

theorem topPrediction_first_maximum_witness:
  "map probability (predictions_of tie_probs) = map Num [1/8, 3/8, 3/8, 1/8]
   \<and> list_all (\<lambda>r. 0 \<le> r) [1/8, 3/8, 3/8, 1/8 :: real]
   \<and> predictions_of tie_probs \<noteq> []
   \<and> probability (topPrediction_of (predictions_of tie_probs)) = Num (3/8)
   \<and> className (topPrediction_of (predictions_of tie_probs)) = Some ''Healthy''"
proof -
  have h1: "map probability (predictions_of tie_probs) = map Num [1/8, 3/8, 3/8, 1/8]"
    by (simp add: predictions_of_def tie_probs_def upt_rec)
  have h2: "\<forall>r\<in>set [1/8, 3/8, 3/8, 1/8 :: real]. 0 \<le> r" by simp
  have ne: "predictions_of tie_probs \<noteq> []" by (simp add: predictions_of_def tie_probs_def)
  have mx: "probability (topPrediction_of (predictions_of tie_probs)) = Num (3/8)"
    using topPrediction_first_maximum [OF h1 h2] ne by simp
  have nm: "className (topPrediction_of (predictions_of tie_probs)) = Some ''Healthy''"
    by (simp add: topPrediction_of_def predictions_of_def tie_probs_def upt_rec keep_max_def
        seed_def classNames_at_def classNames_def)
  from h1 ne mx nm show ?thesis by simp
qed



subsection \<open>Requests without a file\<close>

text \<open>
  Claim C9. With the model loaded, a \<open>POST /predict\<close> request that carries no file is
  answered with status 400 and the message \<open>No image uploaded\<close> by both HTTP servers,
  and the world is left as it was: the trace gains no file-system call.
\<close>

theorem no_file_is_400:
  assumes "model env \<noteq> None" "req_file req = None"
  shows "post_predict_1 env req w = (Inr \<lparr>status = 400, body = ErrorBody ''No image uploaded''\<rparr>, w)
       \<and> post_predict_2 env req w = (Inr \<lparr>status = 400, body = ErrorBody ''No image uploaded''\<rparr>, w)"
  using assms by (auto simp: post_predict_1_def post_predict_2_def ret_def)

theorem no_file_is_400_witness:
  "model env_ok \<noteq> None \<and> req_file \<lparr>req_file = None\<rparr> = None
   \<and> post_predict_1 env_ok \<lparr>req_file = None\<rparr> w0 =
       (Inr \<lparr>status = 400, body = ErrorBody ''No image uploaded''\<rparr>, w0)
   \<and> post_predict_2 env_ok \<lparr>req_file = None\<rparr> w0 =
       (Inr \<lparr>status = 400, body = ErrorBody ''No image uploaded''\<rparr>, w0)"
proof -
  have h1: "model env_ok \<noteq> None" by (simp add: env_ok_def)
  have h2: "req_file \<lparr>req_file = None\<rparr> = None" by simp
  from no_file_is_400 [OF h1 h2, of w0] h1 h2 show ?thesis by simp
qed


subsection \<open>Messages that are not frames\<close>

text \<open>
  Claim C10, amended. For every well-formed JSON message other than the literal \<open>null\<close>
  (reading its \<open>type\<close> does not throw) whose type is not the string \<open>frame\<close>, be it
  another type or none, the handler returns with the world unchanged: nothing is sent,
  on this connection or on any other, and no connection changes state. The claim as
  stated, for every well-formed JSON message, fails at \<open>null\<close>: see
  \<open>null_message_counterexample\<close> below.
\<close>

theorem non_frame_message_ignored:
  assumes "JSON_parse env data = Inr message" "get_prop env message ''type'' = Inr ty"
    "ty \<noteq> Some (JString ''frame'')"
  shows "on_message env ws data w = (Inr (), w)"
  using assms by (simp add: on_message_def io_defs)

theorem non_frame_message_ignored_witness:
  "JSON_parse env_ok ping_text = Inr ping_message
   \<and> get_prop env_ok ping_message ''type'' = Inr (Some (JString ''ping''))
   \<and> Some (JString ''ping'') \<noteq> Some (JString ''frame'')
   \<and> on_message env_ok 3 ping_text w0 = (Inr (), w0)"
proof -
  have h1: "JSON_parse env_ok ping_text = Inr ping_message"
    by (simp add: env_ok_def text_defs)
  have h2: "get_prop env_ok ping_message ''type'' = Inr (Some (JString ''ping''))"
    by (simp add: get_prop_def ping_message_def)
  have h3: "Some (JString ''ping'') \<noteq> Some (JString ''frame'')" by simp
  from non_frame_message_ignored [OF h1 h2 h3, of 3 w0] h1 h2 h3 show ?thesis by simp
qed

text \<open>
  The JSON literal \<open>null\<close> is a well-formed message that declares no type, but reading
  \<open>message.type\<close> throws on it, and the \<open>catch\<close> block answers with an error message.
\<close>

lemma null_message_is_answered:
  assumes "JSON_parse env data = Inr JNull" "is_open (conns w ws)"
  shows "on_message env ws data w =
    (Inr (),
     w\<lparr>conns := (conns w)
        (ws := pushed (ErrorMsg (errText env (ReadOfNull ''type'')) []) (conns w ws))\<rparr>)"
  using assms by (simp add: on_message_def get_prop_def io_defs ws_send_def)

theorem null_message_counterexample:
  "JSON_parse env_ok null_text = Inr JNull
   \<and> outbox (conns w0 3) = []
   \<and> outbox (conns (snd (on_message env_ok 3 null_text w0)) 3) =
       [ErrorMsg (node_text (ReadOfNull ''type'')) []]"
proof -
  have h1: "JSON_parse env_ok null_text = Inr JNull" by (simp add: env_ok_def text_defs)
  have h2: "is_open (conns w0 3)" by (simp add: w0_def)
  have h3: "errText env_ok = node_text" by (simp add: env_ok_def)
  show ?thesis
    unfolding null_message_is_answered [OF h1 h2] h3
    using h1 by (simp add: w0_def pushed_def)
qed

subsection \<open>The model is not loaded\<close>

text \<open>
  Claim C6. While \<open>model\<close> is unset, both HTTP servers answer every \<open>POST /predict\<close>
  with status 503 and leave the world unchanged; and the streaming handler answers every
  message of type \<open>frame\<close> on an open connection with exactly one error message on that
  connection, the world being otherwise unchanged: the connection stays open, the trace
  gains no TensorFlow operation and no tensor is created.
\<close>

theorem model_not_loaded:
  assumes "model env = None"
  shows "post_predict_1 env req w =
           (Inr \<lparr>status = 503, body = ErrorBody ''Model not loaded yet. Please try again later.''\<rparr>, w)
       \<and> post_predict_2 env req w =
           (Inr \<lparr>status = 503, body = ErrorBody ''Model not loaded yet. Please try again later.''\<rparr>, w)
       \<and> (is_open (conns w ws) \<and> JSON_parse env data = Inr message
            \<and> get_prop env message ''type'' = Inr (Some (JString ''frame'')) \<longrightarrow>
          (\<exists>e. on_message env ws data w =
             (Inr (), w\<lparr>conns := (conns w)(ws := pushed (ErrorMsg e []) (conns w ws))\<rparr>)))"
proof -
  have stream: "\<exists>e. on_message env ws data w =
             (Inr (), w\<lparr>conns := (conns w)(ws := pushed (ErrorMsg e []) (conns w ws))\<rparr>)"
    if "is_open (conns w ws)" "JSON_parse env data = Inr message"
       "get_prop env message ''type'' = Inr (Some (JString ''frame''))"
  proof -
    have "\<exists>r. bind (lift (get_prop env message ''frameData'')) (\<lambda>frameData.
            bind (lift (frameData_split1 env frameData)) (\<lambda>base64Data.
            bind (lift (Buffer_from env base64Data)) (\<lambda>buffer.
            bind (predictLeafDisease env buffer) (\<lambda>prediction.
              ws_send ws
                (PredictionMsg (predictions prediction) (topPrediction prediction)
                   (confidence prediction) (timestamp prediction)))))) w = (Inl r, w)"
      using assms by (simp add: io_defs predictLeafDisease_def split: sum.split)
    then show ?thesis
      using that by (auto simp: on_message_def io_defs ws_send_def)
  qed
  with assms show ?thesis
    by (simp add: post_predict_1_def post_predict_2_def ret_def)
qed

theorem model_not_loaded_witness:
  "model env_off = None \<and> is_open (conns w0 3)
   \<and> JSON_parse env_off frame_text = Inr frame_message
   \<and> get_prop env_off frame_message ''type'' = Inr (Some (JString ''frame''))
   \<and> post_predict_1 env_off \<lparr>req_file = None\<rparr> w0 =
        (Inr \<lparr>status = 503, body = ErrorBody ''Model not loaded yet. Please try again later.''\<rparr>, w0)
   \<and> post_predict_2 env_off \<lparr>req_file = None\<rparr> w0 =
        (Inr \<lparr>status = 503, body = ErrorBody ''Model not loaded yet. Please try again later.''\<rparr>, w0)
   \<and> (\<exists>e. on_message env_off 3 frame_text w0 =
         (Inr (), w0\<lparr>conns := (conns w0)(3 := pushed (ErrorMsg e []) (conns w0 3))\<rparr>))"
proof -
  have h0: "model env_off = None" by (simp add: env_off_def)
  have h1: "is_open (conns w0 3)" by (simp add: w0_def)
  have h2: "JSON_parse env_off frame_text = Inr frame_message"
    by (simp add: env_off_def env_ok_def)
  have h3: "get_prop env_off frame_message ''type'' = Inr (Some (JString ''frame''))"
    by (simp add: get_prop_def frame_message_def)
  from model_not_loaded [OF h0, of "\<lparr>req_file = None\<rparr>" w0 3 frame_text] h0 h1 h2 h3
  show ?thesis by simp
qed


subsection \<open>Frames that fail\<close>

lemma predictLeafDisease_conns:
  "conns (snd (predictLeafDisease env buffer w)) = conns w"
  by (simp add: predictLeafDisease_def tf_defs tidy_def io_defs
      split: option.split sum.split prod.split)



lemma predictLeafDisease_runs:
  assumes "model env = Some m" "decodeImage env buffer = Inr px" "\<not> no_pixels px"
    "m (model_input env px) = Inr probabilities"
  shows "fst (predictLeafDisease env buffer w) =
     Inr \<lparr>predictions = predictions_of probabilities,
          topPrediction = topPrediction_of (predictions_of probabilities),
          confidence = toFixed2 env (probability (topPrediction_of (predictions_of probabilities))),
          timestamp = now env\<rparr>"
  using assms
  by (simp add: predictLeafDisease_def tf_defs model_input_def tidy_def io_defs)

lemma on_message_frame:
  assumes "JSON_parse env data = Inr message"
    "get_prop env message ''type'' = Inr (Some (JString ''frame''))"
    "get_prop env message ''frameData'' = Inr frameData"
    "frameData_split1 env frameData = Inr base64Data"
    "Buffer_from env base64Data = Inr buffer"
  shows "on_message env ws data w =
     (case predictLeafDisease env buffer w of
        (Inl err, w') \<Rightarrow> ws_send ws (ErrorMsg err []) w'
      | (Inr p, w') \<Rightarrow>
          ws_send ws (PredictionMsg (predictions p) (topPrediction p) (confidence p) (timestamp p)) w')"
  using assms
  by (simp add: on_message_def io_defs ws_send_def split: prod.split sum.split)





subsection \<open>Failing cleanup\<close>

lemma bind_assoc: "bind (bind m f) g = bind m (\<lambda>x. bind (f x) g)"
  by (auto simp: bind_def fun_eq_iff split: prod.split sum.split)

lemma on_failure_response:
  "fst (on_failure env imagePath err w) = Inr \<lparr>status = 500, body = FailBody ''Prediction failed'' err\<rparr>"
  by (simp add: on_failure_def fs_defs io_defs split: prod.split sum.split)

lemma respond_response:
  "fst (try_catch (respond env imagePath probabilities) (on_failure env imagePath) w) =
     Inr (if length probabilities \<noteq> length classNames
          then \<lparr>status = 500, body = FailBody ''Prediction failed''
                 (''Expected '' @ show_nat (length classNames) @ '' output classes but got ''
                  @ show_nat (length probabilities))\<rparr>
          else \<lparr>status = 200, body = ResultBody (build_result env probabilities)\<rparr>)"
  by (simp add: respond_def try_catch_def throw_def on_failure_response)
     (simp add: fs_defs io_defs)

lemma handler_response:
  "fst (try_catch (bind A (respond env imagePath)) (on_failure env imagePath) w) =
     (case fst (A w) of
        Inl err \<Rightarrow> Inr \<lparr>status = 500, body = FailBody ''Prediction failed'' err\<rparr>
      | Inr probabilities \<Rightarrow>
          fst (try_catch (respond env imagePath probabilities) (on_failure env imagePath) (snd (A w))))"
  by (cases "A w") (auto simp: try_catch_def bind_def on_failure_response split: sum.split prod.split)

lemma inference_1_locked:
  "fst ((bind (readFileSync env imagePath) (\<lambda>buffer.
        bind (preprocess env buffer) (\<lambda>tensor.
        bind (try_catch (tf_predict m tensor) (\<lambda>err. throw (''Model prediction failed: '' @ err)))
          dataSync))) (w\<lparr>locked := L\<rparr>))
   = fst ((bind (readFileSync env imagePath) (\<lambda>buffer.
        bind (preprocess env buffer) (\<lambda>tensor.
        bind (try_catch (tf_predict m tensor) (\<lambda>err. throw (''Model prediction failed: '' @ err)))
          dataSync))) w)"
  by (simp add: tf_defs fs_defs io_defs split: option.split sum.split prod.split)

lemma inference_2_locked:
  "fst ((bind (readFileSync env imagePath) (\<lambda>buffer.
        tidy (bind (preprocess env buffer) (\<lambda>tensor.
              bind (try_catch (tf_predict m tensor)
                      (\<lambda>err. throw (''Model prediction failed: '' @ err)))
                dataSync)))) (w\<lparr>locked := L\<rparr>))
   = fst ((bind (readFileSync env imagePath) (\<lambda>buffer.
        tidy (bind (preprocess env buffer) (\<lambda>tensor.
              bind (try_catch (tf_predict m tensor)
                      (\<lambda>err. throw (''Model prediction failed: '' @ err)))
                dataSync)))) w)"
  by (simp add: tf_defs fs_defs tidy_def io_defs split: option.split sum.split prod.split)

lemma post_predict_1_split:
  assumes "model env = Some m" "req_file req = Some imagePath"
  shows "post_predict_1 env req =
    try_catch
      (bind
         (bind (readFileSync env imagePath) (\<lambda>buffer.
          bind (preprocess env buffer) (\<lambda>tensor.
          bind (try_catch (tf_predict m tensor)
                  (\<lambda>err. throw (''Model prediction failed: '' @ err)))
            dataSync)))
         (respond env imagePath))
      (on_failure env imagePath)"
  using assms by (simp add: post_predict_1_def bind_assoc)

lemma post_predict_2_split:
  assumes "model env = Some m" "req_file req = Some imagePath"
  shows "post_predict_2 env req =
    try_catch
      (bind
         (bind (readFileSync env imagePath) (\<lambda>buffer.
          tidy (bind (preprocess env buffer) (\<lambda>tensor.
                bind (try_catch (tf_predict m tensor)
                        (\<lambda>err. throw (''Model prediction failed: '' @ err)))
                  dataSync))))
         (respond env imagePath))
      (on_failure env imagePath)"
  using assms by (simp add: post_predict_2_def bind_assoc)

lemma post_predict_1_locked:
  "fst (post_predict_1 env req (w\<lparr>locked := L\<rparr>)) = fst (post_predict_1 env req w)"
proof (cases "model env")
  case None
  then show ?thesis by (simp add: post_predict_1_def ret_def)
next
  case (Some m)
  show ?thesis
  proof (cases "req_file req")
    case None
    with Some show ?thesis by (simp add: post_predict_1_def ret_def)
  next
    case (Some imagePath)
    show ?thesis
      unfolding post_predict_1_split [OF \<open>model env = Some m\<close> Some] handler_response
        respond_response inference_1_locked ..
  qed
qed

lemma post_predict_2_locked:
  "fst (post_predict_2 env req (w\<lparr>locked := L\<rparr>)) = fst (post_predict_2 env req w)"
proof (cases "model env")
  case None
  then show ?thesis by (simp add: post_predict_2_def ret_def)
next
  case (Some m)
  show ?thesis
  proof (cases "req_file req")
    case None
    with Some show ?thesis by (simp add: post_predict_2_def ret_def)
  next
    case (Some imagePath)
    show ?thesis
      unfolding post_predict_2_split [OF \<open>model env = Some m\<close> Some] handler_response
        respond_response inference_2_locked ..
  qed
qed

lemma post_predict_1_responds: "\<exists>resp. fst (post_predict_1 env req w) = Inr resp"
proof (cases "model env")
  case None
  then show ?thesis by (simp add: post_predict_1_def ret_def)
next
  case (Some m)
  show ?thesis
  proof (cases "req_file req")
    case None
    with Some show ?thesis by (simp add: post_predict_1_def ret_def)
  next
    case (Some imagePath)
    show ?thesis
      unfolding post_predict_1_split [OF \<open>model env = Some m\<close> Some] handler_response
        respond_response by (simp split: sum.split)
  qed
qed

lemma post_predict_2_responds: "\<exists>resp. fst (post_predict_2 env req w) = Inr resp"
proof (cases "model env")
  case None
  then show ?thesis by (simp add: post_predict_2_def ret_def)
next
  case (Some m)
  show ?thesis
  proof (cases "req_file req")
    case None
    with Some show ?thesis by (simp add: post_predict_2_def ret_def)
  next
    case (Some imagePath)
    show ?thesis
      unfolding post_predict_2_split [OF \<open>model env = Some m\<close> Some] handler_response
        respond_response by (simp split: sum.split)
  qed
qed

text \<open>
  Claim C8. Neither HTTP handler ever ends in an unhandled error: it always produces a
  response. The response is the same whatever set of paths the operating system refuses
  to remove, so it does not depend on whether the removal of the upload succeeds. And
  when the upload is already gone at the time of the removal, the rest of the \<open>try\<close>
  block still returns the success response: the rejected \<open>unlink\<close> is swallowed.
\<close>

theorem cleanup_failure_is_swallowed:
  "(\<exists>resp. fst (post_predict_1 env req (w\<lparr>locked := L\<rparr>)) = Inr resp
            \<and> fst (post_predict_1 env req (w\<lparr>locked := L'\<rparr>)) = Inr resp)
   \<and> (\<exists>resp. fst (post_predict_2 env req (w\<lparr>locked := L\<rparr>)) = Inr resp
            \<and> fst (post_predict_2 env req (w\<lparr>locked := L'\<rparr>)) = Inr resp)
   \<and> (files w imagePath = None \<and> length probabilities = length classNames \<longrightarrow>
        respond env imagePath probabilities w =
          (Inr \<lparr>status = 200, body = ResultBody (build_result env probabilities)\<rparr>,
           w\<lparr>trace := trace w @ [FsUnlink imagePath]\<rparr>))"
proof -
  have gone: "respond env imagePath probabilities w =
          (Inr \<lparr>status = 200, body = ResultBody (build_result env probabilities)\<rparr>,
           w\<lparr>trace := trace w @ [FsUnlink imagePath]\<rparr>)"
    if "files w imagePath = None" "length probabilities = length classNames"
    using that by (simp add: respond_def fs_defs io_defs)
  from post_predict_1_responds [of env req w] post_predict_2_responds [of env req w] gone
  show ?thesis
    by (simp add: post_predict_1_locked post_predict_2_locked)
qed

theorem cleanup_failure_is_swallowed_witness:
  "files (w0\<lparr>files := Map.empty\<rparr>) ''uploads/a1'' = None
   \<and> length tie_probs = length classNames
   \<and> respond env_ok ''uploads/a1'' tie_probs (w0\<lparr>files := Map.empty\<rparr>) =
        (Inr \<lparr>status = 200, body = ResultBody (build_result env_ok tie_probs)\<rparr>,
         w0\<lparr>files := Map.empty, trace := [FsUnlink ''uploads/a1'']\<rparr>)
   \<and> (\<exists>resp.
         fst (post_predict_1 env_ok \<lparr>req_file = Some ''uploads/a1''\<rparr> (w0\<lparr>locked := {}\<rparr>)) = Inr resp
         \<and> fst (post_predict_1 env_ok \<lparr>req_file = Some ''uploads/a1''\<rparr>
                  (w0\<lparr>locked := {''uploads/a1''}\<rparr>)) = Inr resp)"
proof -
  have h1: "files (w0\<lparr>files := Map.empty\<rparr>) ''uploads/a1'' = None" by simp
  have h2: "length tie_probs = length classNames" by (simp add: tie_probs_def classNames_def)
  have t: "trace (w0\<lparr>files := Map.empty\<rparr>) = []" by (simp add: w0_def)
  from cleanup_failure_is_swallowed [where env = env_ok
      and req = "\<lparr>req_file = Some ''uploads/a1''\<rparr>" and w = w0 and L = "{}"
      and L' = "{''uploads/a1''}"]
    cleanup_failure_is_swallowed [where env = env_ok and w = "w0\<lparr>files := Map.empty\<rparr>"
      and imagePath = "''uploads/a1''" and probabilities = tie_probs] h1 h2 t
  show ?thesis by simp
qed


subsection \<open>The preprocessor\<close>

lemma nn_index_less: "0 < n \<Longrightarrow> nn_index env n i < n"
  by (simp add: nn_index_def)

lemma length_resize_row: "length (resize_row env row) = 224"
  by (simp add: resize_row_def)

lemma set_resize_row: "row \<noteq> [] \<Longrightarrow> set (resize_row env row) \<subseteq> set row"
  by (auto simp: resize_row_def nn_index_less)

lemma is_grid_resize:
  assumes "is_grid h wd c img" "0 < h" "0 < wd"
  shows "is_grid 224 224 c (resizeNearestNeighbor env img)"
proof -
  have rows: "\<forall>row\<in>set img. length row = wd \<and> (\<forall>px\<in>set row. length px = c)"
    and len: "length img = h"
    using assms(1) by (auto simp: is_grid_def list_all_iff)
  have "length (resize_row env (img ! nn_index env (length img) y)) = 224
      \<and> (\<forall>px\<in>set (resize_row env (img ! nn_index env (length img) y)). length px = c)" for y
  proof -
    have "img ! nn_index env (length img) y \<in> set img"
      using len assms(2) by (simp add: nn_index_less)
    with rows have r: "length (img ! nn_index env (length img) y) = wd"
      "\<forall>px\<in>set (img ! nn_index env (length img) y). length px = c" by auto
    with assms(3) have "img ! nn_index env (length img) y \<noteq> []" by auto
    from set_resize_row [OF this] r(2) show ?thesis by (auto simp: length_resize_row)
  qed
  then show ?thesis
    by (simp add: is_grid_def resizeNearestNeighbor_def list_all_iff)
qed

lemma is_grid_div255: "is_grid h wd c img \<Longrightarrow> is_grid h wd c (div255 env img)"
  by (auto simp: is_grid_def div255_def list_all_iff)

lemma div255_range:
  assumes "mono (fl env)" "fl env 0 = 0" "fl env 1 = 1"
  shows "unit_range (div255 env img)"
proof -
  have "0 \<le> fl env (real (unat v) / 255) \<and> fl env (real (unat v) / 255) \<le> 1" for v :: "8 word"
  proof -
    define n where "n = unat v"
    have "n < 256" unfolding n_def using unsigned_less [of v, where 'a = nat] by simp
    then have lo: "0 \<le> real n / 255" and hi: "real n / 255 \<le> 1" by simp_all
    have "fl env 0 \<le> fl env (real n / 255)" using assms(1) lo by (rule monoD)
    moreover have "fl env (real n / 255) \<le> fl env 1" using assms(1) hi by (rule monoD)
    ultimately have "0 \<le> fl env (real n / 255) \<and> fl env (real n / 255) \<le> 1"
      using assms(2,3) by simp
    then show ?thesis by (simp add: n_def)
  qed
  then show ?thesis by (simp add: unit_range_def div255_def list_all_iff)
qed

lemma model_input_range:
  assumes "mono (fl env)" "fl env 0 = 0" "fl env 1 = 1"
  shows "in_unit_range (model_input env px)"
  using div255_range [OF assms]
  by (cases px)
     (simp_all add: in_unit_range_def model_input_def expandDims_def map_frames_def list_all_iff)

lemma grids_have_pixels:
  assumes "list_all (is_grid h wd c) (frames px)" "0 < h" "0 < wd"
  shows "\<not> no_pixels px"
  using assms by (auto simp: no_pixels_def is_grid_def list_all_iff list_ex_iff)

lemma preprocess_runs:
  assumes "decodeImage env buffer = Inr px" "\<not> no_pixels px"
  shows "preprocess env buffer w =
     (Inr (Tensor (Suc (Suc (Suc (next_id w)))) (model_input env px)),
      w\<lparr>trace := trace w @ [TfDecodeImage, TfResize, TfDiv, TfExpandDims],
        next_id := Suc (Suc (Suc (Suc (next_id w)))),
        live := insert (Suc (Suc (Suc (next_id w)))) (insert (Suc (Suc (next_id w)))
                  (insert (Suc (next_id w)) (insert (next_id w) (live w))))\<rparr>)"
  using assms by (simp add: tf_defs model_input_def io_defs)

lemma resized_pixel:
  assumes "is_grid h wd c img" "0 < h" "0 < wd" "y < 224" "x < 224"
  shows "div255 env (resizeNearestNeighbor env img) ! y ! x =
     map (\<lambda>v. fl env (real (unat v) / 255)) (img ! nn_index env h y ! nn_index env wd x)"
proof -
  have len: "length img = h" using assms(1) by (simp add: is_grid_def)
  have "nn_index env h y < h" using assms(2) by (rule nn_index_less)
  then have "img ! nn_index env h y \<in> set img" using len by simp
  then have w: "length (img ! nn_index env h y) = wd"
    using assms(1) by (auto simp: is_grid_def list_all_iff)
  show ?thesis
    using assms(4,5) len w
    by (simp add: div255_def resizeNearestNeighbor_def resize_row_def)
qed

text \<open>
  Claim C5, amended. When the decoder yields images of \<open>h\<close> rows and \<open>wd\<close> columns of
  three channel bytes, both positive, and the rounding of the division is monotone and
  keeps 0 and 1, preprocessing succeeds and every value of the tensor lies between 0 and
  1 inclusive. When the decoder yields a still image (rank 3: a JPEG, PNG or BMP file),
  the tensor has shape (1, 224, 224, 3): the image resized by nearest neighbour, divided
  by 255, under a batch dimension of one; pixel \<open>(y, x)\<close> of it is the pixel of the image
  at the source row and column the kernel picks, both inside the image, with each
  channel divided by 255. The claim as stated, for every decodable image, fails for a
  GIF file, whose tensor has rank 5: see \<open>animated_image_counterexample\<close> below.
\<close>

theorem preprocess_shape_and_range:
  assumes "decodeImage env buffer = Inr px" "list_all (is_grid h wd 3) (frames px)"
    "0 < h" "0 < wd" "mono (fl env)" "fl env 0 = 0" "fl env 1 = 1"
  shows "\<exists>t w'. preprocess env buffer w = (Inr t, w')
           \<and> dat t = model_input env px
           \<and> in_unit_range (dat t)
           \<and> (\<forall>img. px = Still img \<longrightarrow>
                 dat t = Rank4 [div255 env (resizeNearestNeighbor env img)]
                 \<and> fixed_shape (dat t)
                 \<and> (\<forall>y<224. \<forall>x<224.
                       nn_index env h y < h \<and> nn_index env wd x < wd
                       \<and> div255 env (resizeNearestNeighbor env img) ! y ! x =
                           map (\<lambda>v. fl env (real (unat v) / 255))
                             (img ! nn_index env h y ! nn_index env wd x)))"
proof -
  have np: "\<not> no_pixels px" using assms(2-4) by (rule grids_have_pixels)
  have range: "in_unit_range (model_input env px)" using assms(5-7) by (rule model_input_range)
  have still: "model_input env px = Rank4 [div255 env (resizeNearestNeighbor env img)]
      \<and> fixed_shape (Rank4 [div255 env (resizeNearestNeighbor env img)])
      \<and> (\<forall>y<224. \<forall>x<224.
            nn_index env h y < h \<and> nn_index env wd x < wd
            \<and> div255 env (resizeNearestNeighbor env img) ! y ! x =
                map (\<lambda>v. fl env (real (unat v) / 255))
                  (img ! nn_index env h y ! nn_index env wd x))"
    if px: "px = Still img" for img
  proof -
    have g: "is_grid h wd 3 img" using assms(2) px by (simp add: frames_def)
    have mi: "model_input env px = Rank4 [div255 env (resizeNearestNeighbor env img)]"
      using px by (simp add: model_input_def expandDims_def map_frames_def)
    have "is_grid 224 224 3 (div255 env (resizeNearestNeighbor env img))"
      using is_grid_div255 [OF is_grid_resize [OF g assms(3,4)]] .
    then have sh: "fixed_shape (Rank4 [div255 env (resizeNearestNeighbor env img)])"
      by (simp add: fixed_shape_def has_shape_def)
    from mi sh resized_pixel [OF g assms(3,4)] nn_index_less [OF assms(3)]
      nn_index_less [OF assms(4)]
    show ?thesis by simp
  qed
  let ?t = "Tensor (Suc (Suc (Suc (next_id w)))) (model_input env px)"
  have d: "dat ?t = model_input env px" by simp
  have st: "\<forall>img. px = Still img \<longrightarrow>
                 dat ?t = Rank4 [div255 env (resizeNearestNeighbor env img)]
                 \<and> fixed_shape (dat ?t)
                 \<and> (\<forall>y<224. \<forall>x<224.
                       nn_index env h y < h \<and> nn_index env wd x < wd
                       \<and> div255 env (resizeNearestNeighbor env img) ! y ! x =
                           map (\<lambda>v. fl env (real (unat v) / 255))
                             (img ! nn_index env h y ! nn_index env wd x))"
  proof (intro allI impI)
    fix img assume "px = Still img"
    from still [OF this]
    show "dat ?t = Rank4 [div255 env (resizeNearestNeighbor env img)]
                 \<and> fixed_shape (dat ?t)
                 \<and> (\<forall>y<224. \<forall>x<224.
                       nn_index env h y < h \<and> nn_index env wd x < wd
                       \<and> div255 env (resizeNearestNeighbor env img) ! y ! x =
                           map (\<lambda>v. fl env (real (unat v) / 255))
                             (img ! nn_index env h y ! nn_index env wd x))"
      by auto
  qed
  from range have rg: "in_unit_range (dat ?t)" by (simp only: d)
  show ?thesis
    unfolding preprocess_runs [OF assms(1) np]
    using d rg st by blast
qed

theorem preprocess_shape_and_range_witness:
  "decodeImage env_ok png_bytes = Inr (Still img1)
   \<and> list_all (is_grid 1 1 3) (frames (Still img1)) \<and> (0::nat) < 1
   \<and> mono (fl env_ok) \<and> fl env_ok 0 = 0 \<and> fl env_ok 1 = 1
   \<and> (\<exists>t w'. preprocess env_ok png_bytes w0 = (Inr t, w')
         \<and> fixed_shape (dat t) \<and> in_unit_range (dat t))"
proof -
  have h1: "decodeImage env_ok png_bytes = Inr (Still img1)" by (simp add: env_ok_def)
  have h2: "list_all (is_grid 1 1 3) (frames (Still img1))"
    by (simp add: is_grid_def frames_def img1_def)
  have h3: "(0::nat) < 1" by simp
  have h4: "mono (fl env_ok)" by (simp add: env_ok_def mono_def)
  have h5: "fl env_ok 0 = 0" and h6: "fl env_ok 1 = 1" by (simp_all add: env_ok_def)
  from preprocess_shape_and_range [OF h1 h2 h3 h3 h4 h5 h6, of w0]
  have "\<exists>t w'. preprocess env_ok png_bytes w0 = (Inr t, w')
         \<and> fixed_shape (dat t) \<and> in_unit_range (dat t)" by blast
  with h1 h2 h3 h4 h5 h6 show ?thesis by blast
qed

theorem animated_image_counterexample:
  "decodeImage env_ok gif_bytes = Inr (Animated [gif_frame])
   \<and> (\<exists>t w'. preprocess env_ok gif_bytes w0 = (Inr t, w')
         \<and> dat t = Rank5 [[div255 env_ok (resizeNearestNeighbor env_ok gif_frame)]]
         \<and> \<not> fixed_shape (dat t))"
proof -
  have h1: "decodeImage env_ok gif_bytes = Inr (Animated [gif_frame])"
    by (simp add: env_ok_def png_bytes_def gif_bytes_def)
  have h2: "\<not> no_pixels (Animated [gif_frame])"
    by (simp add: no_pixels_def frames_def gif_frame_def)
  have h3: "model_input env_ok (Animated [gif_frame]) =
      Rank5 [[div255 env_ok (resizeNearestNeighbor env_ok gif_frame)]]"
    by (simp add: model_input_def expandDims_def map_frames_def)
  show ?thesis
    unfolding preprocess_runs [OF h1 h2] h3
    using h1 by (simp add: fixed_shape_def)
qed


subsection \<open>Tensors of the first HTTP server\<close>

lemma keeps_live_ret: "keeps_live (ret x)"
  and keeps_live_throw: "keeps_live (throw e)"
  and keeps_live_lift: "keeps_live (lift r)"
  and keeps_live_log: "keeps_live (log ev)"
  by (simp_all add: keeps_live_def fresh_def io_defs)

lemma keeps_live_bind:
  assumes "keeps_live m" "\<And>x. keeps_live (f x)"
  shows "keeps_live (bind m f)"
  unfolding keeps_live_def
proof (intro allI impI)
  fix w assume "fresh w"
  with assms(1) have m: "fresh (snd (m w))" "live (snd (m w)) = live w"
    by (auto simp: keeps_live_def)
  show "fresh (snd (bind m f w)) \<and> live (snd (bind m f w)) = live w"
  proof (cases "m w")
    case (Pair r w')
    with m assms(2) show ?thesis
      by (cases r) (auto simp: bind_def keeps_live_def)
  qed
qed

lemma keeps_live_try_catch:
  assumes "keeps_live m" "\<And>e. keeps_live (h e)"
  shows "keeps_live (try_catch m h)"
  unfolding keeps_live_def
proof (intro allI impI)
  fix w assume "fresh w"
  with assms(1) have m: "fresh (snd (m w))" "live (snd (m w)) = live w"
    by (auto simp: keeps_live_def)
  show "fresh (snd (try_catch m h w)) \<and> live (snd (try_catch m h w)) = live w"
  proof (cases "m w")
    case (Pair r w')
    with m assms(2) show ?thesis
      by (cases r) (auto simp: try_catch_def keeps_live_def)
  qed
qed

lemma keeps_live_fs:
  "keeps_live (readFileSync env p)" "keeps_live (existsSync p)" "keeps_live (unlink env p)"
  by (auto simp: keeps_live_def fresh_def fs_defs io_defs split: option.split)

lemma keeps_live_ws_send: "keeps_live (ws_send ws msg)"
  by (simp add: keeps_live_def fresh_def ws_send_def)

lemma keeps_live_tidy_server:
  "keeps_live (tidy (try_catch
       (bind (preprocess env buffer) (\<lambda>tensor.
        bind (tf_predict m tensor) (\<lambda>prediction.
        bind (dataSync prediction) k)))
       (\<lambda>err. throw (g err))))" if "\<And>x. k x = ret (r x)"
  unfolding keeps_live_def fresh_def
  by (auto simp: that tf_defs tidy_def io_defs split: sum.split prod.split)

lemma keeps_live_tidy_http:
  "keeps_live (tidy (bind (preprocess env buffer) (\<lambda>tensor.
        bind (try_catch (tf_predict m tensor) (\<lambda>err. throw (g err))) dataSync)))"
  unfolding keeps_live_def fresh_def
  by (auto simp: tf_defs tidy_def io_defs split: sum.split prod.split)

lemma keeps_live_predictLeafDisease: "keeps_live (predictLeafDisease env buffer)"
  unfolding predictLeafDisease_def
  by (auto split: option.split intro!: keeps_live_throw keeps_live_tidy_server)

lemma keeps_live_on_message: "keeps_live (on_message env ws data)"
  unfolding on_message_def
  by (intro keeps_live_try_catch keeps_live_bind keeps_live_lift keeps_live_ws_send
      keeps_live_predictLeafDisease if_split [where P = keeps_live, THEN iffD2] conjI impI
      keeps_live_ret)

lemma keeps_live_respond: "keeps_live (respond env p probabilities)"
  unfolding respond_def
  by (intro keeps_live_try_catch keeps_live_bind keeps_live_fs keeps_live_throw keeps_live_ret
      if_split [where P = keeps_live, THEN iffD2] conjI impI)

lemma keeps_live_on_failure: "keeps_live (on_failure env p err)"
  unfolding on_failure_def
  by (intro keeps_live_try_catch keeps_live_bind keeps_live_fs keeps_live_throw keeps_live_ret
      if_split [where P = keeps_live, THEN iffD2] conjI impI)

lemma keeps_live_post_predict_2: "keeps_live (post_predict_2 env req)"
  unfolding post_predict_2_def
  by (auto split: option.split
      intro!: keeps_live_try_catch keeps_live_bind keeps_live_fs keeps_live_ret
        keeps_live_respond keeps_live_on_failure keeps_live_tidy_http)

lemma tidy_scopes_release_tensors:
  assumes "\<forall>t\<in>live w. t < next_id w"
  shows "live (snd (predictLeafDisease env buffer w)) = live w"
    and "live (snd (on_message env ws data w)) = live w"
    and "live (snd (post_predict_2 env req w)) = live w"
  using assms keeps_live_predictLeafDisease [of env buffer] keeps_live_on_message [of env ws data]
    keeps_live_post_predict_2 [of env req]
  by (simp_all add: keeps_live_def fresh_def)

text \<open>
  Claim C1: every tensor created during an inference is released before control returns,
  so that the live tensors after the invocation are those before it. The scopes of
  \<open>tf.tidy\<close> in \<open>server.js\<close> and in the second HTTP server ensure it (the lemma above).
  The first HTTP server runs the same chain without \<open>tf.tidy\<close> and disposes nothing:
  after a successful request on a world without live tensors, the tensors of the chain
  (decoded, resized, divided, batched, predicted) are all live, where the second HTTP
  server leaves none.
\<close>

theorem first_server_leaks_tensors:
  "live w0 = {}
   \<and> fst (post_predict_1 env_ok \<lparr>req_file = Some ''uploads/a1''\<rparr> w0) =
       Inr \<lparr>status = 200, body = ResultBody (build_result env_ok [Num (1/8), Num (5/8), Num (1/8), Num (1/8)])\<rparr>
   \<and> live (snd (post_predict_1 env_ok \<lparr>req_file = Some ''uploads/a1''\<rparr> w0)) = {0, 1, 2, 3, 4}
   \<and> live (snd (post_predict_2 env_ok \<lparr>req_file = Some ''uploads/a1''\<rparr> w0)) = {}"
  by (auto simp: post_predict_1_def post_predict_2_def respond_def tf_defs fs_defs tidy_def io_defs
      no_pixels_def frames_def map_frames_def expandDims_def fixture_defs classNames_def)


subsection \<open>The length of the model's output\<close>

lemma http_prediction_set_length:
  assumes "fst (post_predict_1 env req w) = Inr \<lparr>status = 200, body = ResultBody r\<rparr>
         \<or> fst (post_predict_2 env req w) = Inr \<lparr>status = 200, body = ResultBody r\<rparr>"
  shows "length (res_predictions r) = length classNames"
proof -
  have len: "length (res_predictions (build_result env probabilities)) = length probabilities"
    for probabilities
    by (simp add: build_result_def predictions_of_def)
  show ?thesis
  proof (cases "model env")
    case None
    with assms show ?thesis by (auto simp: post_predict_1_def post_predict_2_def ret_def)
  next
    case (Some m)
    show ?thesis
    proof (cases "req_file req")
      case None
      with Some assms show ?thesis by (auto simp: post_predict_1_def post_predict_2_def ret_def)
    next
      case (Some p)
      from assms show ?thesis
        unfolding post_predict_1_split [OF \<open>model env = Some m\<close> Some]
          post_predict_2_split [OF \<open>model env = Some m\<close> Some] handler_response respond_response
        using len by (auto split: sum.splits if_splits)
    qed
  qed
qed

lemma streaming_has_no_length_check:
  assumes "is_open (conns w ws)" "JSON_parse env data = Inr message"
    "get_prop env message ''type'' = Inr (Some (JString ''frame''))"
    "get_prop env message ''frameData'' = Inr frameData"
    "frameData_split1 env frameData = Inr base64Data"
    "Buffer_from env base64Data = Inr buffer"
    "model env = Some m" "decodeImage env buffer = Inr px" "\<not> no_pixels px"
    "m (model_input env px) = Inr probabilities"
  shows "conns (snd (on_message env ws data w)) =
     (conns w)
     (ws := pushed
        (PredictionMsg (predictions_of probabilities)
           (topPrediction_of (predictions_of probabilities))
           (toFixed2 env (probability (topPrediction_of (predictions_of probabilities))))
           (now env))
        (conns w ws))"
proof -
  obtain r w' where run: "predictLeafDisease env buffer w = (r, w')"
    by (cases "predictLeafDisease env buffer w")
  from predictLeafDisease_runs [OF assms(7-10), of w] run
  have r: "r = Inr \<lparr>predictions = predictions_of probabilities,
          topPrediction = topPrediction_of (predictions_of probabilities),
          confidence = toFixed2 env (probability (topPrediction_of (predictions_of probabilities))),
          timestamp = now env\<rparr>" by simp
  from predictLeafDisease_conns [of env buffer w] run have c: "conns w' = conns w" by simp
  show ?thesis
    using assms(1) c by (simp add: on_message_frame [OF assms(2-6)] run r ws_send_def)
qed

lemma length_predictions_of: "length (predictions_of probabilities) = length probabilities"
  by (simp add: predictions_of_def)

text \<open>
  Claim C2: the prediction set has as many entries as there are labels, and an output of
  any other length is an error. Both HTTP servers check the length
  (\<open>http_prediction_set_length\<close>, and status 500 with
  \<open>Expected 4 output classes but got 3\<close> below). \<open>predictLeafDisease\<close> does not: whatever
  the length of the model's output, a frame that decodes is answered with a prediction
  message of that many predictions (\<open>streaming_has_no_length_check\<close>). Below, the frame
  carries the PNG file of one pixel: for a model with three scores the streaming server
  sends a prediction message with three predictions, and for one with five scores a
  message with five, the last without a class name.
\<close>

theorem streaming_accepts_wrong_length:
  "JSON_parse env_three frame_text = Inr frame_message
   \<and> Buffer_from env_three (Some png_base64) = Inr png_bytes
   \<and> decodeImage env_three png_bytes = Inr (Still img1)
   \<and> conns (snd (on_message env_three 3 frame_text w0)) =
     (conns w0)
     (3 := pushed
        (PredictionMsg
           [\<lparr>className = Some ''Oidium Heveae'', probability = Num (1/4)\<rparr>,
            \<lparr>className = Some ''Healthy'', probability = Num (1/2)\<rparr>,
            \<lparr>className = Some ''Anthracnose'', probability = Num (1/4)\<rparr>]
           \<lparr>className = Some ''Healthy'', probability = Num (1/2)\<rparr>
           ''50.00'' ''2024-01-01T00:00:00.000Z'')
        (conns w0 3))
   \<and> conns (snd (on_message env_five 3 frame_text w0)) =
     (conns w0)
     (3 := pushed
        (PredictionMsg
           [\<lparr>className = Some ''Oidium Heveae'', probability = Num (1/8)\<rparr>,
            \<lparr>className = Some ''Healthy'', probability = Num (1/2)\<rparr>,
            \<lparr>className = Some ''Anthracnose'', probability = Num (1/8)\<rparr>,
            \<lparr>className = Some ''Leaf Spot'', probability = Num (1/8)\<rparr>,
            \<lparr>className = None, probability = Num (1/8)\<rparr>]
           \<lparr>className = Some ''Healthy'', probability = Num (1/2)\<rparr>
           ''50.00'' ''2024-01-01T00:00:00.000Z'')
        (conns w0 3))
   \<and> fst (post_predict_1 env_three \<lparr>req_file = Some ''uploads/a1''\<rparr> w0) =
       Inr \<lparr>status = 500,
            body = FailBody ''Prediction failed'' ''Expected 4 output classes but got 3''\<rparr>
   \<and> fst (post_predict_2 env_three \<lparr>req_file = Some ''uploads/a1''\<rparr> w0) =
       Inr \<lparr>status = 500,
            body = FailBody ''Prediction failed'' ''Expected 4 output classes but got 3''\<rparr>"
proof -
  have o: "is_open (conns w0 3)" by (simp add: w0_def)
  have np: "\<not> no_pixels (Still img1)" by (simp add: no_pixels_def frames_def img1_def)
  have mi: "model_input env (Still img1) = Rank4 [div255 env (resizeNearestNeighbor env img1)]"
    for env by (simp add: model_input_def expandDims_def map_frames_def)
  have fd: "frameData_split1 env (Some (JString (''data:image/png;base64,'' @ png_base64))) =
      Inr (Some png_base64)" for env
    by (simp add: frameData_split1_def png_base64_def)
  have gp: "get_prop env frame_message ''type'' = Inr (Some (JString ''frame''))"
    "get_prop env frame_message ''frameData'' =
       Inr (Some (JString (''data:image/png;base64,'' @ png_base64)))" for env
    by (simp_all add: get_prop_def frame_message_def)
  have p3: "JSON_parse env_three frame_text = Inr frame_message"
    and b3: "Buffer_from env_three (Some png_base64) = Inr png_bytes"
    and d3: "decodeImage env_three png_bytes = Inr (Still img1)"
    by (simp_all add: env_three_def env_ok_def Buffer_from_def)
  have p5: "JSON_parse env_five frame_text = Inr frame_message"
    and b5: "Buffer_from env_five (Some png_base64) = Inr png_bytes"
    and d5: "decodeImage env_five png_bytes = Inr (Still img1)"
    by (simp_all add: env_five_def env_ok_def Buffer_from_def)
  have three: "conns (snd (on_message env_three 3 frame_text w0)) =
     (conns w0)
     (3 := pushed
        (PredictionMsg
           [\<lparr>className = Some ''Oidium Heveae'', probability = Num (1/4)\<rparr>,
            \<lparr>className = Some ''Healthy'', probability = Num (1/2)\<rparr>,
            \<lparr>className = Some ''Anthracnose'', probability = Num (1/4)\<rparr>]
           \<lparr>className = Some ''Healthy'', probability = Num (1/2)\<rparr>
           ''50.00'' ''2024-01-01T00:00:00.000Z'')
        (conns w0 3))"
    using streaming_has_no_length_check [OF o p3 gp fd b3 _ d3 np,
        where probabilities = "[Num (1/4), Num (1/2), Num (1/4)]"]
    by (simp add: mi env_three_def env_ok_def predictions_of_def topPrediction_of_def
        keep_max_def seed_def classNames_at_def classNames_def upt_rec fixed2_def
        show_nat.simps)
  have five: "conns (snd (on_message env_five 3 frame_text w0)) =
     (conns w0)
     (3 := pushed
        (PredictionMsg
           [\<lparr>className = Some ''Oidium Heveae'', probability = Num (1/8)\<rparr>,
            \<lparr>className = Some ''Healthy'', probability = Num (1/2)\<rparr>,
            \<lparr>className = Some ''Anthracnose'', probability = Num (1/8)\<rparr>,
            \<lparr>className = Some ''Leaf Spot'', probability = Num (1/8)\<rparr>,
            \<lparr>className = None, probability = Num (1/8)\<rparr>]
           \<lparr>className = Some ''Healthy'', probability = Num (1/2)\<rparr>
           ''50.00'' ''2024-01-01T00:00:00.000Z'')
        (conns w0 3))"
    using streaming_has_no_length_check [OF o p5 gp fd b5 _ d5 np,
        where probabilities = "[Num (1/8), Num (1/2), Num (1/8), Num (1/8), Num (1/8)]"]
    by (simp add: mi env_five_def env_ok_def predictions_of_def topPrediction_of_def
        keep_max_def seed_def classNames_at_def classNames_def upt_rec fixed2_def
        show_nat.simps)
  have http: "fst (post_predict_1 env_three \<lparr>req_file = Some ''uploads/a1''\<rparr> w0) =
       Inr \<lparr>status = 500,
            body = FailBody ''Prediction failed'' ''Expected 4 output classes but got 3''\<rparr>"
    "fst (post_predict_2 env_three \<lparr>req_file = Some ''uploads/a1''\<rparr> w0) =
       Inr \<lparr>status = 500,
            body = FailBody ''Prediction failed'' ''Expected 4 output classes but got 3''\<rparr>"
    by (simp_all add: post_predict_1_def post_predict_2_def respond_def on_failure_def tf_defs
        fs_defs tidy_def io_defs no_pixels_def frames_def map_frames_def expandDims_def
        env_three_def env_ok_def w0_def img1_def classNames_def show_nat.simps)
  from p3 b3 d3 three five http show ?thesis by simp
qed

subsection \<open>The upload when the model is not loaded\<close>

lemma on_failure_unlinks:
  assumes "files w p \<noteq> None"
  shows "count_list (trace (snd (on_failure env p err w))) (FsUnlink p) =
           Suc (count_list (trace w) (FsUnlink p))
       \<and> files (snd (on_failure env p err w)) p = (if p \<in> locked w then files w p else None)"
  using assms by (auto simp: on_failure_def fs_defs io_defs)

lemma respond_unlinks:
  assumes "files w p \<noteq> None"
  shows "count_list (trace (snd (try_catch (respond env p probabilities) (on_failure env p) w)))
           (FsUnlink p) = Suc (count_list (trace w) (FsUnlink p))
       \<and> files (snd (try_catch (respond env p probabilities) (on_failure env p) w)) p =
           (if p \<in> locked w then files w p else None)"
proof (cases "length probabilities \<noteq> length classNames")
  case True
  then show ?thesis
    using on_failure_unlinks [OF assms] by (simp add: respond_def try_catch_def throw_def)
next
  case False
  then show ?thesis
    using assms by (auto simp: respond_def fs_defs io_defs)
qed

lemma handler_world:
  "snd (try_catch (bind A (respond env p)) (on_failure env p) w) =
     (case fst (A w) of
        Inl err \<Rightarrow> snd (on_failure env p err (snd (A w)))
      | Inr probabilities \<Rightarrow>
          snd (try_catch (respond env p probabilities) (on_failure env p) (snd (A w))))"
  by (cases "A w") (auto simp: try_catch_def bind_def split: sum.split prod.split)

lemma inference_1_fs:
  assumes "files w p \<noteq> None"
  shows "files (snd ((bind (readFileSync env p) (\<lambda>buffer.
        bind (preprocess env buffer) (\<lambda>tensor.
        bind (try_catch (tf_predict m tensor) (\<lambda>err. throw (''Model prediction failed: '' @ err)))
          dataSync))) w)) = files w
    \<and> locked (snd ((bind (readFileSync env p) (\<lambda>buffer.
        bind (preprocess env buffer) (\<lambda>tensor.
        bind (try_catch (tf_predict m tensor) (\<lambda>err. throw (''Model prediction failed: '' @ err)))
          dataSync))) w)) = locked w
    \<and> count_list (trace (snd ((bind (readFileSync env p) (\<lambda>buffer.
        bind (preprocess env buffer) (\<lambda>tensor.
        bind (try_catch (tf_predict m tensor) (\<lambda>err. throw (''Model prediction failed: '' @ err)))
          dataSync))) w))) (FsUnlink p) = count_list (trace w) (FsUnlink p)"
  using assms by (simp add: tf_defs fs_defs io_defs split: option.split sum.split prod.split)

lemma inference_2_fs:
  assumes "files w p \<noteq> None"
  shows "files (snd ((bind (readFileSync env p) (\<lambda>buffer.
        tidy (bind (preprocess env buffer) (\<lambda>tensor.
              bind (try_catch (tf_predict m tensor)
                      (\<lambda>err. throw (''Model prediction failed: '' @ err)))
                dataSync)))) w)) = files w
    \<and> locked (snd ((bind (readFileSync env p) (\<lambda>buffer.
        tidy (bind (preprocess env buffer) (\<lambda>tensor.
              bind (try_catch (tf_predict m tensor)
                      (\<lambda>err. throw (''Model prediction failed: '' @ err)))
                dataSync)))) w)) = locked w
    \<and> count_list (trace (snd ((bind (readFileSync env p) (\<lambda>buffer.
        tidy (bind (preprocess env buffer) (\<lambda>tensor.
              bind (try_catch (tf_predict m tensor)
                      (\<lambda>err. throw (''Model prediction failed: '' @ err)))
                dataSync)))) w))) (FsUnlink p) = count_list (trace w) (FsUnlink p)"
  using assms by (simp add: tf_defs fs_defs tidy_def io_defs split: option.split sum.split prod.split)

lemma upload_unlinked_once:
  assumes "model env = Some m" "req_file req = Some p" "files w p \<noteq> None"
  shows "count_list (trace (snd (post_predict_1 env req w))) (FsUnlink p) =
           Suc (count_list (trace w) (FsUnlink p))"
    and "files (snd (post_predict_1 env req w)) p = (if p \<in> locked w then files w p else None)"
    and "count_list (trace (snd (post_predict_2 env req w))) (FsUnlink p) =
           Suc (count_list (trace w) (FsUnlink p))"
    and "files (snd (post_predict_2 env req w)) p = (if p \<in> locked w then files w p else None)"
proof -
  note a1 = inference_1_fs [OF assms(3), of env m]
  note a2 = inference_2_fs [OF assms(3), of env m]
  have f1: "files (snd ((bind (readFileSync env p) (\<lambda>buffer.
        bind (preprocess env buffer) (\<lambda>tensor.
        bind (try_catch (tf_predict m tensor) (\<lambda>err. throw (''Model prediction failed: '' @ err)))
          dataSync))) w)) p \<noteq> None"
    using a1 assms(3) by simp
  have f2: "files (snd ((bind (readFileSync env p) (\<lambda>buffer.
        tidy (bind (preprocess env buffer) (\<lambda>tensor.
              bind (try_catch (tf_predict m tensor)
                      (\<lambda>err. throw (''Model prediction failed: '' @ err)))
                dataSync)))) w)) p \<noteq> None"
    using a2 assms(3) by simp
  show "count_list (trace (snd (post_predict_1 env req w))) (FsUnlink p) =
           Suc (count_list (trace w) (FsUnlink p))"
    and "files (snd (post_predict_1 env req w)) p = (if p \<in> locked w then files w p else None)"
    unfolding post_predict_1_split [OF assms(1,2)] handler_world
    using on_failure_unlinks [OF f1, of env] respond_unlinks [OF f1, of env] a1
    by (simp_all split: sum.split)
  show "count_list (trace (snd (post_predict_2 env req w))) (FsUnlink p) =
           Suc (count_list (trace w) (FsUnlink p))"
    and "files (snd (post_predict_2 env req w)) p = (if p \<in> locked w then files w p else None)"
    unfolding post_predict_2_split [OF assms(1,2)] handler_world
    using on_failure_unlinks [OF f2, of env] respond_unlinks [OF f2, of env] a2
    by (simp_all split: sum.split)
qed

text \<open>
  Claim C3: the stored upload of every request that reaches the handler is removed
  exactly once. Past the two guards it is so while the file is there (the lemma above:
  one \<open>unlink\<close>, on the success path and in the \<open>catch\<close> block alike). A request that
  carries a file while the model is not loaded is answered with status 503 and the world
  is unchanged: the stored upload is still in the upload directory and no \<open>unlink\<close>
  was attempted.
\<close>

theorem upload_survives_503:
  "files w0 ''uploads/a1'' = Some png_bytes
   \<and> post_predict_1 env_off \<lparr>req_file = Some ''uploads/a1''\<rparr> w0 =
       (Inr \<lparr>status = 503, body = ErrorBody ''Model not loaded yet. Please try again later.''\<rparr>, w0)
   \<and> post_predict_2 env_off \<lparr>req_file = Some ''uploads/a1''\<rparr> w0 =
       (Inr \<lparr>status = 503, body = ErrorBody ''Model not loaded yet. Please try again later.''\<rparr>, w0)"
  by (simp add: post_predict_1_def post_predict_2_def ret_def env_off_def env_ok_def w0_def)

end
